theory Spec2Isabelle
  imports Complex_Main "HOL-Library.Sublist"
begin

section \<open>Python values and exceptions\<close>

text \<open>
  The gateway is asynchronous Python. Exceptions are values of type \<open>exn\<close>; a function
  that may raise returns \<open>exn + 'a\<close> with \<open>Inl\<close> for the raised exception. The
  constructors are the exception classes the code raises or catches; \<open>exn_str\<close> is
  Python's \<open>str(e)\<close>.
\<close>

datatype exn =
    ValueError string
  | TypeError string
  | AttributeError string
  | ValidationError string
  | JSONDecodeError string
  | ClientError string
  | TimeoutError string
  | RuntimeError string

fun exn_str :: "exn \<Rightarrow> string" where
  "exn_str (ValueError m) = m"
| "exn_str (TypeError m) = m"
| "exn_str (AttributeError m) = m"
| "exn_str (ValidationError m) = m"
| "exn_str (JSONDecodeError m) = m"
| "exn_str (ClientError m) = m"
| "exn_str (TimeoutError m) = m"
| "exn_str (RuntimeError m) = m"

text \<open>Decimal rendering of integers, as an f-string does it.\<close>

definition digit_char :: "nat \<Rightarrow> char" where
  "digit_char d = ''0123456789'' ! (d mod 10)"

function str_nat :: "nat \<Rightarrow> string" where
  "str_nat n = (if n < 10 then [digit_char n] else str_nat (n div 10) @ [digit_char n])"
  by pat_completeness auto
termination
  by (relation "measure (\<lambda>n. n)") auto

definition str_int :: "int \<Rightarrow> string" where
  "str_int i = (if i < 0 then CHR ''-'' # str_nat (nat (- i)) else str_nat (nat i))"

text \<open>\<open>contains s pat\<close> is Python's \<open>pat in s\<close> on strings.\<close>

fun contains :: "string \<Rightarrow> string \<Rightarrow> bool" where
  "contains [] pat = (pat = [])"
| "contains (c # cs) pat = (prefix pat (c # cs) \<or> contains cs pat)"

text \<open>
  \<open>str.replace(old, new)\<close>: one left-to-right pass that replaces the leftmost
  non-overlapping occurrences. \<open>replace_from\<close> carries the number of characters of the
  current occurrence still to be skipped. With an empty \<open>old\<close> Python puts \<open>new\<close>
  around every character.
\<close>

fun replace_from :: "string \<Rightarrow> string \<Rightarrow> nat \<Rightarrow> string \<Rightarrow> string" where
  "replace_from old new k [] = []"
| "replace_from old new (Suc k) (c # cs) = replace_from old new k cs"
| "replace_from old new 0 (c # cs) =
     (if prefix old (c # cs) then new @ replace_from old new (length old - 1) cs
      else c # replace_from old new 0 cs)"

definition py_replace :: "string \<Rightarrow> string \<Rightarrow> string \<Rightarrow> string" where
  "py_replace old new s =
     (if old = [] then new @ concat (map (\<lambda>c. c # new) s) else replace_from old new 0 s)"

text \<open>The slice \<open>s[:n]\<close>; a negative \<open>n\<close> counts from the end.\<close>

definition py_slice_to :: "'a list \<Rightarrow> int \<Rightarrow> 'a list" where
  "py_slice_to s n = (if 0 \<le> n then take (nat n) s else take (length s - nat (- n)) s)"

section \<open>Settings and message types\<close>

text \<open>
  The fields of \<open>config/settings.py\<close> that the modelled code reads. All are plain
  \<open>int\<close>/\<open>bool\<close> fields without a range constraint. Python floats
  (temperatures, times, rates) are carried as rationals: the code only passes them on
  and compares them. The field \<open>text\<close> of \<open>GenerationResult\<close> is called
  \<open>result_text\<close> here.
\<close>

record SecurityConfig =
  data_sanitization :: bool
  max_prompt_length :: int
  max_response_length :: int

record PerformanceConfig =
  max_concurrent_requests :: int

record Settings =
  security :: SecurityConfig
  performance :: PerformanceConfig

record GenerateTextParams =
  prompt :: string
  max_tokens :: int
  temperature :: rat
  top_p :: rat
  top_k :: int
  typical_p :: rat
  rep_pen :: rat
  rep_pen_range :: int
  stop_sequence :: "string list option"
  stream :: bool

record GenerationResult =
  result_text :: string
  tokens_generated :: int
  generation_time :: rat
  tokens_per_second :: rat
  finish_reason :: string

text \<open>
  \<open>KoboldCppClient.generate_text\<close> as its callers see it: the call with number \<open>k\<close>
  (the position of the call within one tool invocation, or of the task within one batch)
  either raises or returns a result.
\<close>

type_synonym client_generate = "nat \<Rightarrow> GenerateTextParams \<Rightarrow> exn + GenerationResult"

section \<open>Capability layer: sanitization and generate_text\<close>

definition sanitize_prompt :: "Settings \<Rightarrow> string \<Rightarrow> string" where
  "sanitize_prompt settings p =
     (let sanitized = py_replace ''<|endoftext|>'' '''' (py_replace ''</s>'' '''' p);
          max_length = max_prompt_length (security settings)
      in if int (length sanitized) > max_length then py_slice_to sanitized max_length
         else sanitized)"

record GenerateTextOutput =
  gt_type :: string
  gt_text :: string
  gt_tokens_generated :: int
  gt_generation_time :: rat
  gt_tokens_per_second :: rat
  gt_finish_reason :: string
  gt_parameters_used :: GenerateTextParams

definition generate_params ::
  "Settings \<Rightarrow> string \<Rightarrow> int \<Rightarrow> rat \<Rightarrow> rat \<Rightarrow> int \<Rightarrow> rat \<Rightarrow> rat \<Rightarrow> int \<Rightarrow> string list option
     \<Rightarrow> GenerateTextParams" where
  "generate_params settings p mt temp tp tk typ rp rpr stop =
     \<lparr>prompt = p, max_tokens = min mt (max_response_length (security settings)),
      temperature = temp, top_p = tp, top_k = tk, typical_p = typ, rep_pen = rp,
      rep_pen_range = rpr,
      stop_sequence = Some (case stop of None \<Rightarrow> [] | Some xs \<Rightarrow> xs), stream = False\<rparr>"

definition generate_output :: "GenerationResult \<Rightarrow> GenerateTextParams \<Rightarrow> GenerateTextOutput" where
  "generate_output r params =
     \<lparr>gt_type = ''text'', gt_text = result_text r, gt_tokens_generated = tokens_generated r,
      gt_generation_time = generation_time r, gt_tokens_per_second = tokens_per_second r,
      gt_finish_reason = finish_reason r, gt_parameters_used = params\<rparr>"

text \<open>
  \<open>TextGenerationTools.generate_text\<close>. The second component is the list of requests
  handed to the backend client, in order.
\<close>

definition generate_text ::
  "Settings \<Rightarrow> client_generate \<Rightarrow> string \<Rightarrow> int \<Rightarrow> rat \<Rightarrow> rat \<Rightarrow> int \<Rightarrow> rat \<Rightarrow> rat \<Rightarrow> int
     \<Rightarrow> string list option \<Rightarrow> (exn + GenerateTextOutput) \<times> GenerateTextParams list" where
  "generate_text settings client p mt temp tp tk typ rp rpr stop =
     (let p1 = (if data_sanitization (security settings) then sanitize_prompt settings p else p)
      in if int (length p1) > max_prompt_length (security settings)
         then (Inl (ValueError (''Prompt exceeds maximum length of ''
                                  @ str_int (max_prompt_length (security settings)))), [])
         else (let params = generate_params settings p1 mt temp tp tk typ rp rpr stop
               in case client 0 params of
                    Inl e \<Rightarrow> (Inl e, [params])
                  | Inr r \<Rightarrow> (Inr (generate_output r params), [params])))"

section \<open>Backend client: request with retry\<close>

text \<open>
  A decoded JSON document, and more generally a Python value built from \<open>None\<close>,
  booleans, numbers, strings, lists and string-keyed dicts. A dict is an association
  list with distinct keys, in insertion order.
\<close>

datatype json =
    JNull
  | JBool bool
  | JInt int
  | JFloat rat
  | JStr string
  | JList "json list"
  | JObj "(string \<times> json) list"

record KoboldCppConfig =
  max_retries :: int
  retry_delay :: rat

text \<open>
  What one \<open>session.request\<close> does on a given attempt: either the call raises, or a
  response arrives with a status, the outcome of \<open>response.json()\<close> and the body text.
\<close>

datatype http_outcome =
    Response nat "exn + json" string
  | Raises exn

datatype 'a step = Return 'a | Continue | Raise exn

text \<open>\<open>except (aiohttp.ClientError, asyncio.TimeoutError)\<close>.\<close>

fun is_client_or_timeout :: "exn \<Rightarrow> bool" where
  "is_client_or_timeout (ClientError m) = True"
| "is_client_or_timeout (TimeoutError m) = True"
| "is_client_or_timeout e = False"

text \<open>The body of the \<open>try\<close> block of one attempt.\<close>

fun request_body :: "int \<Rightarrow> nat \<Rightarrow> http_outcome \<Rightarrow> json step" where
  "request_body retries_max attempt (Raises e) = Raise e"
| "request_body retries_max attempt (Response status js body) =
     (if status = 200 then (case js of Inr res \<Rightarrow> Return res | Inl e \<Rightarrow> Raise e)
      else if status \<in> {502, 503, 504} \<and> int attempt < retries_max then Continue
      else Raise (ClientError (''HTTP '' @ str_nat status @ '': '' @ body)))"

text \<open>One attempt: the \<open>try\<close> block followed by its \<open>except\<close> clause.\<close>

definition request_attempt :: "int \<Rightarrow> nat \<Rightarrow> http_outcome \<Rightarrow> json step" where
  "request_attempt retries_max attempt outcome =
     (case request_body retries_max attempt outcome of
        Raise e \<Rightarrow>
          (if is_client_or_timeout e then (if int attempt < retries_max then Continue else Raise e)
           else Raise e)
      | other \<Rightarrow> other)"

text \<open>
  The \<open>for attempt in range(max_retries + 1)\<close> loop and the \<open>raise\<close> after it. Every
  \<open>Continue\<close> comes after \<open>asyncio.sleep(retry_delay * 2 ** attempt)\<close>; the second
  component lists the attempts that were followed by such a sleep.
\<close>

fun request_loop :: "(nat \<Rightarrow> http_outcome) \<Rightarrow> int \<Rightarrow> nat list \<Rightarrow> (exn + json) \<times> nat list" where
  "request_loop http retries_max [] =
     (Inl (ClientError (''Failed after '' @ str_int (retries_max + 1) @ '' attempts'')), [])"
| "request_loop http retries_max (attempt # rest) =
     (case request_attempt retries_max attempt (http attempt) of
        Return res \<Rightarrow> (Inr res, [])
      | Raise e \<Rightarrow> (Inl e, [])
      | Continue \<Rightarrow>
          (case request_loop http retries_max rest of (res, slept) \<Rightarrow> (res, attempt # slept)))"

text \<open>
  \<open>KoboldCppClient._make_request\<close>, from the point where the shared request gate has
  been entered. \<open>http\<close> gives the backend's behaviour on each attempt.
\<close>

definition retry_limit :: "KoboldCppConfig \<Rightarrow> int option \<Rightarrow> int" where
  "retry_limit config retries = (case retries of Some r \<Rightarrow> r | None \<Rightarrow> max_retries config)"

definition make_request ::
  "KoboldCppConfig \<Rightarrow> int option \<Rightarrow> (nat \<Rightarrow> http_outcome) \<Rightarrow> (exn + json) \<times> nat list" where
  "make_request config retries http =
     (let retries_max = retry_limit config retries
      in request_loop http retries_max [0 ..< nat (retries_max + 1)])"



section \<open>Backend client: batch fan-out\<close>

record BatchRequest =
  prompts :: "string list"
  parameters :: GenerateTextParams
  max_concurrent :: int

record BatchResult =
  results :: "GenerationResult list"
  total_time :: rat
  successful :: int
  failed :: int

text \<open>\<open>GenerateTextParams.model_dump()\<close>: every field of the model, by name.\<close>

definition model_dump :: "GenerateTextParams \<Rightarrow> (string \<times> json) list" where
  "model_dump p =
     [(''prompt'', JStr (prompt p)),
      (''max_tokens'', JInt (max_tokens p)),
      (''temperature'', JFloat (temperature p)),
      (''top_p'', JFloat (top_p p)),
      (''top_k'', JInt (top_k p)),
      (''typical_p'', JFloat (typical_p p)),
      (''rep_pen'', JFloat (rep_pen p)),
      (''rep_pen_range'', JInt (rep_pen_range p)),
      (''stop_sequence'', (case stop_sequence p of None \<Rightarrow> JNull | Some xs \<Rightarrow> JList (map JStr xs))),
      (''stream'', JBool (stream p))]"

text \<open>
  A call \<open>f(k1=v1, ..., **mapping)\<close>: Python raises \<open>TypeError\<close> when a key of the
  mapping repeats an explicit keyword, before \<open>f\<close> is entered.
\<close>

definition call_kwargs :: "(string \<times> json) list \<Rightarrow> (string \<times> json) list \<Rightarrow> exn + (string \<times> json) list" where
  "call_kwargs explicit mapping =
     (case filter (\<lambda>k. k \<in> set (map fst explicit)) (map fst mapping) of
        [] \<Rightarrow> Inr (explicit @ mapping)
      | k # ks \<Rightarrow> Inl (TypeError (''got multiple values for keyword argument '' @ k)))"

text \<open>
  Field validation of \<open>GenerateTextParams(**kwargs)\<close>, for values of the field's own
  type (an integer is also accepted where a float is declared); a missing field takes
  its default, \<open>prompt\<close> has none.
\<close>

definition field_int :: "(string \<times> json) list \<Rightarrow> string \<Rightarrow> int \<Rightarrow> exn + int" where
  "field_int kw k d =
     (case map_of kw k of
        None \<Rightarrow> Inr d
      | Some (JInt i) \<Rightarrow> Inr i
      | Some v \<Rightarrow> Inl (ValidationError k))"

definition field_float :: "(string \<times> json) list \<Rightarrow> string \<Rightarrow> rat \<Rightarrow> exn + rat" where
  "field_float kw k d =
     (case map_of kw k of
        None \<Rightarrow> Inr d
      | Some (JFloat x) \<Rightarrow> Inr x
      | Some (JInt i) \<Rightarrow> Inr (of_int i)
      | Some v \<Rightarrow> Inl (ValidationError k))"

definition field_bool :: "(string \<times> json) list \<Rightarrow> string \<Rightarrow> bool \<Rightarrow> exn + bool" where
  "field_bool kw k d =
     (case map_of kw k of
        None \<Rightarrow> Inr d
      | Some (JBool b) \<Rightarrow> Inr b
      | Some v \<Rightarrow> Inl (ValidationError k))"

fun json_strings :: "json list \<Rightarrow> string list option" where
  "json_strings [] = Some []"
| "json_strings (JStr s # vs) = map_option ((#) s) (json_strings vs)"
| "json_strings (v # vs) = None"

definition field_stop :: "(string \<times> json) list \<Rightarrow> exn + string list option" where
  "field_stop kw =
     (case map_of kw ''stop_sequence'' of
        None \<Rightarrow> Inr None
      | Some JNull \<Rightarrow> Inr None
      | Some (JList vs) \<Rightarrow>
          (case json_strings vs of Some xs \<Rightarrow> Inr (Some xs)
                                 | None \<Rightarrow> Inl (ValidationError ''stop_sequence''))
      | Some v \<Rightarrow> Inl (ValidationError ''stop_sequence''))"

definition bind_exn :: "exn + 'a \<Rightarrow> ('a \<Rightarrow> exn + 'b) \<Rightarrow> exn + 'b" where
  "bind_exn m f = (case m of Inl e \<Rightarrow> Inl e | Inr x \<Rightarrow> f x)"

definition params_of_kwargs :: "(string \<times> json) list \<Rightarrow> exn + GenerateTextParams" where
  "params_of_kwargs kw =
     (case map_of kw ''prompt'' of
        Some (JStr p) \<Rightarrow>
          bind_exn (field_int kw ''max_tokens'' 100) (\<lambda>mt.
          bind_exn (field_float kw ''temperature'' (7 / 10)) (\<lambda>temp.
          bind_exn (field_float kw ''top_p'' (9 / 10)) (\<lambda>tp.
          bind_exn (field_int kw ''top_k'' 40) (\<lambda>tk.
          bind_exn (field_float kw ''typical_p'' 1) (\<lambda>typ.
          bind_exn (field_float kw ''rep_pen'' (11 / 10)) (\<lambda>rp.
          bind_exn (field_int kw ''rep_pen_range'' 320) (\<lambda>rpr.
          bind_exn (field_stop kw) (\<lambda>stop.
          bind_exn (field_bool kw ''stream'' False) (\<lambda>str.
            Inr \<lparr>prompt = p, max_tokens = mt, temperature = temp, top_p = tp, top_k = tk,
                 typical_p = typ, rep_pen = rp, rep_pen_range = rpr, stop_sequence = stop,
                 stream = str\<rparr>)))))))))
      | other \<Rightarrow> Inl (ValidationError ''prompt''))"

text \<open>
  \<open>process_single\<close>, the task of the prompt at position \<open>i\<close>, once it holds the batch
  gate. Every exception is caught and turned into \<open>None\<close>. The second component
  lists the requests the task passed to \<open>self.generate_text\<close>.
\<close>

definition process_single ::
  "client_generate \<Rightarrow> BatchRequest \<Rightarrow> nat \<Rightarrow> string
     \<Rightarrow> GenerationResult option \<times> GenerateTextParams list" where
  "process_single client batch_request i p =
     (case bind_exn (call_kwargs [(''prompt'', JStr p)] (model_dump (parameters batch_request)))
             params_of_kwargs of
        Inl e \<Rightarrow> (None, [])
      | Inr params \<Rightarrow>
          (case client i params of
             Inl e \<Rightarrow> (None, [params])
           | Inr r \<Rightarrow> (Some r, [params])))"

definition failed_result :: GenerationResult where
  "failed_result =
     \<lparr>result_text = '''', tokens_generated = 0, generation_time = 0, tokens_per_second = 0,
      finish_reason = ''error''\<rparr>"

text \<open>The collecting loop over the gathered task results, with its three accumulators.\<close>

fun collect ::
  "GenerationResult option list \<Rightarrow> GenerationResult list \<Rightarrow> int \<Rightarrow> int
     \<Rightarrow> GenerationResult list \<times> int \<times> int" where
  "collect [] res ok bad = (res, ok, bad)"
| "collect (Some r # rs) res ok bad = collect rs (res @ [r]) (ok + 1) bad"
| "collect (None # rs) res ok bad = collect rs (res @ [failed_result]) ok (bad + 1)"

text \<open>
  \<open>KoboldCppClient.batch_generate\<close>. \<open>asyncio.Semaphore(n)\<close> raises \<open>ValueError\<close> for
  a negative \<open>n\<close>; with \<open>n = 0\<close> no task ever enters the gate, so \<open>gather\<close> over a
  non-empty task list never completes and the call does not return (\<open>None\<close>). With a
  positive \<open>n\<close> every task runs to its end and \<open>gather\<close> returns the task results in
  task order. \<open>elapsed\<close> is the measured wall-clock time.
\<close>

definition client_batch_generate ::
  "client_generate \<Rightarrow> rat \<Rightarrow> BatchRequest
     \<Rightarrow> (exn + BatchResult) option \<times> GenerateTextParams list" where
  "client_batch_generate client elapsed batch_request =
     (if max_concurrent batch_request < 0
      then (Some (Inl (ValueError ''Semaphore initial value must be >= 0'')), [])
      else if max_concurrent batch_request = 0 \<and> prompts batch_request \<noteq> [] then (None, [])
      else
        (let tasks = map (\<lambda>(i, p). process_single client batch_request i p)
                         (enumerate 0 (prompts batch_request));
             batch_results = map fst tasks
         in case collect batch_results [] 0 0 of
              (res, ok, bad) \<Rightarrow>
                (Some (Inr \<lparr>results = res, total_time = elapsed, successful = ok, failed = bad\<rparr>),
                 concat (map snd tasks))))"

section \<open>Capability layer: batch_generate\<close>

record BatchItemOutput =
  prompt_index :: nat
  generated_text :: string
  item_tokens_generated :: int
  item_generation_time :: rat
  success :: bool

record BatchOutput =
  bo_type :: string
  bo_text :: string
  bo_results :: "BatchItemOutput list"
  bo_total_time :: rat
  bo_successful :: int
  bo_failed :: int
  total_prompts :: nat

definition format_item :: "nat \<times> GenerationResult \<Rightarrow> BatchItemOutput" where
  "format_item ir =
     (case ir of (i, r) \<Rightarrow>
        \<lparr>prompt_index = i, generated_text = result_text r,
         item_tokens_generated = tokens_generated r, item_generation_time = generation_time r,
         success = (finish_reason r \<noteq> ''error'')\<rparr>)"

definition batch_output :: "BatchResult \<Rightarrow> string list \<Rightarrow> BatchOutput" where
  "batch_output batch_result ps =
     \<lparr>bo_type = ''text'',
      bo_text = ''Batch generation completed: '' @ str_int (successful batch_result)
                  @ '' successful, '' @ str_int (failed batch_result) @ '' failed'',
      bo_results = map format_item (enumerate 0 (results batch_result)),
      bo_total_time = total_time batch_result,
      bo_successful = successful batch_result,
      bo_failed = failed batch_result,
      total_prompts = length ps\<rparr>"

text \<open>
  \<open>TextGenerationTools.batch_generate\<close>. The result is \<open>None\<close> when the call never
  returns; the second component lists the requests that reached the backend client's
  \<open>generate_text\<close>.
\<close>

definition batch_generate ::
  "Settings \<Rightarrow> client_generate \<Rightarrow> rat \<Rightarrow> string list \<Rightarrow> int \<Rightarrow> rat \<Rightarrow> int
     \<Rightarrow> (exn + BatchOutput) option \<times> GenerateTextParams list" where
  "batch_generate settings client elapsed ps mt temp mc =
     (if length ps > 50 then (Some (Inl (ValueError ''Too many prompts in batch (maximum 50)'')), [])
      else
        (let ps1 = (if data_sanitization (security settings) then map (sanitize_prompt settings) ps
                    else ps);
             params = \<lparr>prompt = '''', max_tokens = min mt (max_response_length (security settings)),
                       temperature = temp, top_p = 9 / 10, top_k = 40, typical_p = 1,
                       rep_pen = 11 / 10, rep_pen_range = 320, stop_sequence = None,
                       stream = False\<rparr>;
             batch_request = \<lparr>prompts = ps1, parameters = params,
                              max_concurrent = min mc (max_concurrent_requests (performance settings))\<rparr>
         in case client_batch_generate client elapsed batch_request of
              (None, sent) \<Rightarrow> (None, sent)
            | (Some (Inl e), sent) \<Rightarrow> (Some (Inl e), sent)
            | (Some (Inr batch_result), sent) \<Rightarrow> (Some (Inr (batch_output batch_result ps1)), sent)))"

section \<open>Capability layer: test_prompt\<close>

record TestResult =
  tr_temperature :: rat
  tr_top_p :: rat
  tr_generated_text :: string
  tr_tokens_generated :: int
  tr_generation_time :: rat
  tr_tokens_per_second :: rat

record BestConfiguration =
  best_temperature :: rat
  best_top_p :: rat
  best_performance :: rat

record TestPromptOutput =
  tp_type :: string
  tp_text :: string
  test_results :: "TestResult list"
  best_configuration :: BestConfiguration
  total_tests :: nat

definition sweep_params :: "string \<Rightarrow> int \<Rightarrow> rat \<Rightarrow> rat \<Rightarrow> GenerateTextParams" where
  "sweep_params p mt temp tp =
     \<lparr>prompt = p, max_tokens = mt, temperature = temp, top_p = tp, top_k = 40, typical_p = 1,
      rep_pen = 11 / 10, rep_pen_range = 320, stop_sequence = None, stream = False\<rparr>"

definition sweep_entry :: "rat \<Rightarrow> rat \<Rightarrow> GenerationResult \<Rightarrow> TestResult" where
  "sweep_entry temp tp r =
     \<lparr>tr_temperature = temp, tr_top_p = tp, tr_generated_text = result_text r,
      tr_tokens_generated = tokens_generated r, tr_generation_time = generation_time r,
      tr_tokens_per_second = tokens_per_second r\<rparr>"

text \<open>
  The inner loop \<open>for top_p in top_p_range\<close> at a fixed temperature, and the outer loop
  \<open>for temp in temperature_range\<close>. The state is the \<open>results\<close> list together with
  the requests sent so far; a failing call ends both loops with its exception.
\<close>

fun top_p_loop ::
  "client_generate \<Rightarrow> string \<Rightarrow> int \<Rightarrow> rat \<Rightarrow> rat list \<Rightarrow> TestResult list \<Rightarrow> GenerateTextParams list
     \<Rightarrow> (exn + TestResult list) \<times> GenerateTextParams list" where
  "top_p_loop client p mt temp [] res sent = (Inr res, sent)"
| "top_p_loop client p mt temp (tp # tps) res sent =
     (let params = sweep_params p mt temp tp
      in case client (length sent) params of
           Inl e \<Rightarrow> (Inl e, sent @ [params])
         | Inr r \<Rightarrow> top_p_loop client p mt temp tps (res @ [sweep_entry temp tp r]) (sent @ [params]))"

fun temperature_loop ::
  "client_generate \<Rightarrow> string \<Rightarrow> int \<Rightarrow> rat list \<Rightarrow> rat list \<Rightarrow> TestResult list
     \<Rightarrow> GenerateTextParams list \<Rightarrow> (exn + TestResult list) \<times> GenerateTextParams list" where
  "temperature_loop client p mt [] tps res sent = (Inr res, sent)"
| "temperature_loop client p mt (temp # temps) tps res sent =
     (case top_p_loop client p mt temp tps res sent of
        (Inl e, sent') \<Rightarrow> (Inl e, sent')
      | (Inr res', sent') \<Rightarrow> temperature_loop client p mt temps tps res' sent')"

text \<open>
  \<open>max(xs, key=f)\<close>: the running maximum is replaced only by a strictly larger key;
  an empty argument raises \<open>ValueError\<close>.
\<close>

fun max_from :: "('a \<Rightarrow> rat) \<Rightarrow> 'a \<Rightarrow> 'a list \<Rightarrow> 'a" where
  "max_from key best [] = best"
| "max_from key best (x # xs) = max_from key (if key best < key x then x else best) xs"

definition py_max :: "('a \<Rightarrow> rat) \<Rightarrow> 'a list \<Rightarrow> exn + 'a" where
  "py_max key xs =
     (case xs of [] \<Rightarrow> Inl (ValueError ''max() arg is an empty sequence'')
               | x # rest \<Rightarrow> Inr (max_from key x rest))"

text \<open>\<open>x or default\<close> for an optional list argument.\<close>

definition or_default :: "'a list option \<Rightarrow> 'a list \<Rightarrow> 'a list" where
  "or_default arg d = (case arg of None \<Rightarrow> d | Some [] \<Rightarrow> d | Some xs \<Rightarrow> xs)"

definition test_prompt ::
  "client_generate \<Rightarrow> string \<Rightarrow> rat list option \<Rightarrow> rat list option \<Rightarrow> int
     \<Rightarrow> (exn + TestPromptOutput) \<times> GenerateTextParams list" where
  "test_prompt client p temperature_range top_p_range mt =
     (let temps = or_default temperature_range [3 / 10, 7 / 10, 1];
          tps = or_default top_p_range [8 / 10, 9 / 10, 95 / 100]
      in case temperature_loop client p mt temps tps [] [] of
           (Inl e, sent) \<Rightarrow> (Inl e, sent)
         | (Inr res, sent) \<Rightarrow>
             (case py_max tr_tokens_per_second res of
                Inl e \<Rightarrow> (Inl e, sent)
              | Inr best \<Rightarrow>
                  (Inr \<lparr>tp_type = ''text'',
                        tp_text = ''Prompt testing completed with '' @ str_nat (length res)
                                    @ '' variations'',
                        test_results = res,
                        best_configuration =
                          \<lparr>best_temperature = tr_temperature best, best_top_p = tr_top_p best,
                           best_performance = tr_tokens_per_second best\<rparr>,
                        total_tests = length res\<rparr>, sent)))"

section \<open>Protocol router\<close>

subsection \<open>Envelopes\<close>

text \<open>
  The \<open>id\<close> fields of \<open>MCPRequest\<close> and \<open>MCPResponse\<close> are declared
  \<open>Union[str, int]\<close>: required, and never \<open>None\<close>. \<open>validate_id\<close> is the validation
  pydantic applies to a value given for such a field: a string or an integer is taken as
  it is, a boolean or a float without fractional part is converted to an integer, and
  everything else, \<open>None\<close> included, is rejected. The fields \<open>id\<close> and \<open>method\<close>
  of a request are called \<open>request_id\<close> and \<open>request_method\<close> here, the \<open>id\<close> of a
  response \<open>response_id\<close>, and the \<open>name\<close> and \<open>description\<close> of a definition carry
  the prefix \<open>tool_\<close> or \<open>resource_\<close>.
\<close>

datatype mcp_id = IdStr string | IdInt int

fun validate_id :: "json \<Rightarrow> mcp_id option" where
  "validate_id (JStr s) = Some (IdStr s)"
| "validate_id (JInt i) = Some (IdInt i)"
| "validate_id (JBool b) = Some (IdInt (if b then 1 else 0))"
| "validate_id (JFloat x) = (if x = of_int \<lfloor>x\<rfloor> then Some (IdInt \<lfloor>x\<rfloor>) else None)"
| "validate_id v = None"

fun id_json :: "mcp_id \<Rightarrow> json" where
  "id_json (IdStr s) = JStr s"
| "id_json (IdInt i) = JInt i"

record MCPError =
  code :: int
  message :: string
  data :: "json option"

record MCPRequest =
  jsonrpc :: string
  request_id :: mcp_id
  request_method :: string
  params :: "(string \<times> json) list option"

record ToolDefinition =
  tool_name :: string
  tool_description :: string
  inputSchema :: json

record ResourceDefinition =
  uri :: string
  resource_name :: string
  resource_description :: "string option"
  mimeType :: "string option"

record ToolResult =
  content :: "json list"
  isError :: bool

text \<open>The \<open>result\<close> field, as the response classes declare it.\<close>

datatype result_value =
    ResultDict json
  | ToolsResult "ToolDefinition list"
  | ResourcesResult "ResourceDefinition list"
  | CallResult ToolResult

record MCPResponse =
  response_jsonrpc :: string
  response_id :: mcp_id
  result :: "result_value option"
  error :: "MCPError option"

subsection \<open>Handler state and registries\<close>

text \<open>
  The fields of the \<open>MCPHandler\<close> object that change while it runs, together with two
  logs: the handlers invoked (registry key and argument) and the responses written to
  the connection.
\<close>

record handler_state =
  initialized :: bool
  client_capabilities :: json
  invoked :: "(json \<times> json) list"
  sent :: "MCPResponse list"

text \<open>
  What the router treats as given: the two registries (dicts in registration order;
  a handler either raises or returns a value), Python's \<open>str\<close> on values, and
  \<open>json.loads\<close>.
\<close>

record handler_env =
  tools :: "(string \<times> ((json \<Rightarrow> exn + json) \<times> ToolDefinition)) list"
  resources :: "(string \<times> ((json \<Rightarrow> exn + json) \<times> ResourceDefinition)) list"
  py_str :: "json option \<Rightarrow> string"
  json_loads :: "string \<Rightarrow> exn + json"

subsection \<open>Python operations on values\<close>

text \<open>Truth value of a Python object.\<close>

fun truthy :: "json \<Rightarrow> bool" where
  "truthy JNull = False"
| "truthy (JBool b) = b"
| "truthy (JInt i) = (i \<noteq> 0)"
| "truthy (JFloat x) = (x \<noteq> 0)"
| "truthy (JStr s) = (s \<noteq> [])"
| "truthy (JList vs) = (vs \<noteq> [])"
| "truthy (JObj kvs) = (kvs \<noteq> [])"

text \<open>
  \<open>key in d\<close> and \<open>d[key]\<close> for a dict \<open>d\<close> with string keys: a list or a dict as
  key is unhashable and raises \<open>TypeError\<close>, a string is looked up, any other value
  equals no key.
\<close>

fun dict_find :: "json \<Rightarrow> (string \<times> 'a) list \<Rightarrow> exn + 'a option" where
  "dict_find (JStr s) d = Inr (map_of d s)"
| "dict_find (JList vs) d = Inl (TypeError ''unhashable type: list'')"
| "dict_find (JObj kvs) d = Inl (TypeError ''unhashable type: dict'')"
| "dict_find v d = Inr None"

text \<open>
  Attribute access \<open>request.params.name\<close>. \<open>MCPRequest.params\<close> is declared
  \<open>Optional[Dict[str, Any]]\<close>, so the object is a dict or \<open>None\<close>; neither has an
  attribute \<open>name\<close> or \<open>arguments\<close>, and Python raises \<open>AttributeError\<close>
  (its message is given here without the quotation marks).
\<close>

definition params_attr :: "(string \<times> json) list option \<Rightarrow> string \<Rightarrow> exn + json" where
  "params_attr ps a =
     (case ps of
        None \<Rightarrow> Inl (AttributeError (''NoneType object has no attribute '' @ a))
      | Some kvs \<Rightarrow> Inl (AttributeError (''dict object has no attribute '' @ a)))"

text \<open>The method call \<open>x.get(key)\<close>: defined on dicts, \<open>AttributeError\<close> on \<open>None\<close>.\<close>

definition params_get :: "(string \<times> json) list option \<Rightarrow> string \<Rightarrow> exn + json option" where
  "params_get ps k =
     (case ps of
        None \<Rightarrow> Inl (AttributeError ''NoneType object has no attribute get'')
      | Some kvs \<Rightarrow> Inr (map_of kvs k))"

fun json_get :: "json \<Rightarrow> string \<Rightarrow> exn + json option" where
  "json_get (JObj kvs) k = Inr (map_of kvs k)"
| "json_get v k = Inl (AttributeError ''object has no attribute get'')"

text \<open>\<open>key in data\<close> for a decoded document \<open>data\<close>.\<close>

fun json_contains :: "json \<Rightarrow> string \<Rightarrow> exn + bool" where
  "json_contains (JObj kvs) k = Inr (k \<in> set (map fst kvs))"
| "json_contains (JList vs) k = Inr (JStr k \<in> set vs)"
| "json_contains (JStr s) k = Inr (contains s k)"
| "json_contains v k = Inl (TypeError ''argument is not iterable'')"

subsection \<open>Responses\<close>

text \<open>
  \<open>MCPHandler._create_error_response\<close>: builds \<open>MCPError\<close> and then
  \<open>MCPResponse(id=request_id, error=error)\<close>, whose validation rejects a \<open>request_id\<close>
  that is no valid \<open>id\<close>.
\<close>

definition create_error_response :: "json option \<Rightarrow> int \<Rightarrow> string \<Rightarrow> exn + MCPResponse" where
  "create_error_response rid c msg =
     (case (case rid of None \<Rightarrow> None | Some v \<Rightarrow> validate_id v) of
        None \<Rightarrow> Inl (ValidationError ''MCPResponse id: Input should be a valid string or integer'')
      | Some i \<Rightarrow>
          Inr \<lparr>response_jsonrpc = ''2.0'', response_id = i, result = None,
               error = Some \<lparr>code = c, message = msg, data = None\<rparr>\<rparr>)"

definition result_response :: "mcp_id \<Rightarrow> result_value \<Rightarrow> MCPResponse" where
  "result_response i r =
     \<lparr>response_jsonrpc = ''2.0'', response_id = i, result = Some r, error = None\<rparr>"

definition initialize_result :: json where
  "initialize_result =
     JObj [(''protocolVersion'', JStr ''2024-11-05''),
           (''capabilities'',
              JObj [(''tools'', JObj [(''listChanged'', JBool True)]),
                    (''resources'', JObj [(''listChanged'', JBool True)])]),
           (''serverInfo'',
              JObj [(''name'', JStr ''koboldcpp-mcp-server''), (''version'', JStr ''1.0.0'')])]"

definition text_item :: "string \<Rightarrow> json" where
  "text_item s = JObj [(''type'', JStr ''text''), (''text'', JStr s)]"

fun is_dict :: "json \<Rightarrow> bool" where
  "is_dict (JObj kvs) = True"
| "is_dict v = False"

subsection \<open>Request handlers\<close>

text \<open>
  Every handler returns the response it returns or the exception it raises, together
  with the state it leaves behind.
\<close>

definition handle_initialize ::
  "handler_env \<Rightarrow> handler_state \<Rightarrow> MCPRequest \<Rightarrow> (exn + MCPResponse) \<times> handler_state" where
  "handle_initialize env st request =
     (let ps = (case params request of None \<Rightarrow> [] | Some kvs \<Rightarrow> kvs);
          protocol_version = map_of ps ''protocolVersion''
      in if protocol_version \<noteq> Some (JStr ''2024-11-05'')
         then (create_error_response (Some (id_json (request_id request))) (- 32602)
                 (''Unsupported protocol version: '' @ py_str env protocol_version), st)
         else
           (let st1 = st\<lparr>client_capabilities :=
                          (case map_of ps ''capabilities'' of None \<Rightarrow> JObj [] | Some v \<Rightarrow> v)\<rparr>;
                client_info = (case map_of ps ''clientInfo'' of None \<Rightarrow> JObj [] | Some v \<Rightarrow> v)
            in case bind_exn (json_get client_info ''name'') (\<lambda>n. json_get client_info ''version'') of
                 Inl e \<Rightarrow> (Inl e, st1)
               | Inr v \<Rightarrow>
                   (Inr (result_response (request_id request) (ResultDict initialize_result)),
                    st1\<lparr>initialized := True\<rparr>)))"

definition not_initialized_response :: "MCPRequest \<Rightarrow> exn + MCPResponse" where
  "not_initialized_response request =
     create_error_response (Some (id_json (request_id request))) (- 32002) ''Server not initialized''"

definition handle_list_tools ::
  "handler_env \<Rightarrow> handler_state \<Rightarrow> MCPRequest \<Rightarrow> (exn + MCPResponse) \<times> handler_state" where
  "handle_list_tools env st request =
     (if \<not> initialized st then (not_initialized_response request, st)
      else (Inr (result_response (request_id request)
                   (ToolsResult (map (\<lambda>(k, info). snd info) (tools env)))), st))"

text \<open>
  The part of \<open>_handle_call_tool\<close> after \<open>tool_name\<close> and \<open>arguments\<close> have been read:
  the registry check, then the \<open>try\<close> block with its \<open>except Exception\<close> clause.
\<close>

definition tool_result_of :: "handler_env \<Rightarrow> json \<Rightarrow> exn + ToolResult" where
  "tool_result_of env r =
     (case r of
        JObj kvs \<Rightarrow> Inr \<lparr>content = [r], isError = False\<rparr>
      | JList vs \<Rightarrow>
          (if list_all is_dict vs then Inr \<lparr>content = vs, isError = False\<rparr>
           else Inl (ValidationError ''ToolResult content: Input should be a valid dictionary''))
      | other \<Rightarrow> Inr \<lparr>content = [text_item (py_str env (Some r))], isError = False\<rparr>)"

definition call_tool_body ::
  "handler_env \<Rightarrow> handler_state \<Rightarrow> MCPRequest \<Rightarrow> json \<Rightarrow> json
     \<Rightarrow> (exn + MCPResponse) \<times> handler_state" where
  "call_tool_body env st request name arguments =
     (case dict_find name (tools env) of
        Inl e \<Rightarrow> (Inl e, st)
      | Inr None \<Rightarrow>
          (create_error_response (Some (id_json (request_id request))) (- 32601)
             (''Tool not found: '' @ py_str env (Some name)), st)
      | Inr (Some info) \<Rightarrow>
          (let (outcome, st1) =
                 (if is_dict arguments
                  then (bind_exn (fst info arguments) (tool_result_of env),
                        st\<lparr>invoked := invoked st @ [(name, arguments)]\<rparr>)
                  else (Inl (TypeError ''argument after ** must be a mapping''), st))
           in case outcome of
                Inr tool_result \<Rightarrow>
                  (Inr (result_response (request_id request) (CallResult tool_result)), st1)
              | Inl e \<Rightarrow>
                  (Inr (result_response (request_id request)
                          (CallResult \<lparr>content = [text_item (''Tool execution failed: '' @ exn_str e)],
                                       isError = True\<rparr>)), st1)))"

definition handle_call_tool ::
  "handler_env \<Rightarrow> handler_state \<Rightarrow> MCPRequest \<Rightarrow> (exn + MCPResponse) \<times> handler_state" where
  "handle_call_tool env st request =
     (if \<not> initialized st then (not_initialized_response request, st)
      else
        (case params_attr (params request) ''name'' of
           Inl e \<Rightarrow> (Inl e, st)
         | Inr name \<Rightarrow>
             (case params_attr (params request) ''arguments'' of
                Inl e \<Rightarrow> (Inl e, st)
              | Inr arguments \<Rightarrow> call_tool_body env st request name arguments)))"

definition handle_list_resources ::
  "handler_env \<Rightarrow> handler_state \<Rightarrow> MCPRequest \<Rightarrow> (exn + MCPResponse) \<times> handler_state" where
  "handle_list_resources env st request =
     (if \<not> initialized st then (not_initialized_response request, st)
      else (Inr (result_response (request_id request)
                   (ResourcesResult (map (\<lambda>(k, info). snd info) (resources env)))), st))"

definition handle_read_resource ::
  "handler_env \<Rightarrow> handler_state \<Rightarrow> MCPRequest \<Rightarrow> (exn + MCPResponse) \<times> handler_state" where
  "handle_read_resource env st request =
     (if \<not> initialized st then (not_initialized_response request, st)
      else
        (case params_get (params request) ''uri'' of
           Inl e \<Rightarrow> (Inl e, st)
         | Inr None \<Rightarrow>
             (create_error_response (Some (id_json (request_id request))) (- 32602)
                ''Missing required parameter: uri'', st)
         | Inr (Some u) \<Rightarrow>
             (if \<not> truthy u
              then (create_error_response (Some (id_json (request_id request))) (- 32602)
                      ''Missing required parameter: uri'', st)
              else
                (case dict_find u (resources env) of
                   Inl e \<Rightarrow> (Inl e, st)
                 | Inr None \<Rightarrow>
                     (create_error_response (Some (id_json (request_id request))) (- 32601)
                        (''Resource not found: '' @ py_str env (Some u)), st)
                 | Inr (Some info) \<Rightarrow>
                     (let st1 = st\<lparr>invoked := invoked st @ [(u, u)]\<rparr>;
                          outcome =
                            (case fst info u of
                               Inl e \<Rightarrow> Inl e
                             | Inr (JObj kvs) \<Rightarrow> Inr (JObj kvs)
                             | Inr other \<Rightarrow>
                                 Inl (ValidationError
                                        ''ReadResourceResponse result: Input should be a valid dictionary''))
                      in case outcome of
                           Inr r \<Rightarrow> (Inr (result_response (request_id request) (ResultDict r)), st1)
                         | Inl e \<Rightarrow>
                             (create_error_response (Some (id_json (request_id request))) (- 32603)
                                (''Resource read failed: '' @ exn_str e), st1))))))"

text \<open>\<open>MCPHandler._handle_request\<close>: the dispatch on the method and its \<open>except\<close> clause.\<close>

definition dispatch ::
  "handler_env \<Rightarrow> handler_state \<Rightarrow> MCPRequest \<Rightarrow> (exn + MCPResponse) \<times> handler_state" where
  "dispatch env st request =
     (if request_method request = ''initialize'' then handle_initialize env st request
      else if request_method request = ''tools/list'' then handle_list_tools env st request
      else if request_method request = ''tools/call'' then handle_call_tool env st request
      else if request_method request = ''resources/list'' then handle_list_resources env st request
      else if request_method request = ''resources/read'' then handle_read_resource env st request
      else (create_error_response (Some (id_json (request_id request))) (- 32601)
              (''Method not found: '' @ request_method request), st))"

definition handle_request ::
  "handler_env \<Rightarrow> handler_state \<Rightarrow> MCPRequest \<Rightarrow> (exn + MCPResponse) \<times> handler_state" where
  "handle_request env st request =
     (case dispatch env st request of
        (Inl e, st1) \<Rightarrow>
          (create_error_response (Some (id_json (request_id request))) (- 32603)
             (''Internal error: '' @ exn_str e), st1)
      | (Inr response, st1) \<Rightarrow> (Inr response, st1))"

subsection \<open>Per-message processing and the connection loop\<close>

text \<open>
  \<open>MCPRequest(**data)\<close>: \<open>data\<close> has to be a mapping; \<open>id\<close> and \<open>method\<close> are
  required, \<open>jsonrpc\<close> defaults to \<open>"2.0"\<close>, \<open>params\<close> is a dict or absent; other
  keys are ignored.
\<close>

definition parse_request :: "json \<Rightarrow> exn + MCPRequest" where
  "parse_request d =
     (case d of
        JObj kvs \<Rightarrow>
          (case (case map_of kvs ''jsonrpc'' of None \<Rightarrow> Some ''2.0'' | Some (JStr s) \<Rightarrow> Some s
                                               | Some v \<Rightarrow> None,
                 case map_of kvs ''id'' of None \<Rightarrow> None | Some v \<Rightarrow> validate_id v,
                 case map_of kvs ''method'' of Some (JStr m) \<Rightarrow> Some m | other \<Rightarrow> None,
                 case map_of kvs ''params'' of None \<Rightarrow> Some None | Some JNull \<Rightarrow> Some None
                                            | Some (JObj ps) \<Rightarrow> Some (Some ps) | Some v \<Rightarrow> None) of
             (Some j, Some i, Some m, Some ps) \<Rightarrow>
               Inr \<lparr>jsonrpc = j, request_id = i, request_method = m, params = ps\<rparr>
           | other \<Rightarrow> Inl (ValidationError ''MCPRequest''))
      | other \<Rightarrow> Inl (TypeError ''argument after ** must be a mapping''))"

text \<open>
  \<open>_handle_notification\<close> sends nothing and changes no field: it only logs, and its
  \<open>except Exception\<close> clause swallows every failure.
\<close>

definition handle_notification :: "handler_env \<Rightarrow> handler_state \<Rightarrow> json \<Rightarrow> handler_state" where
  "handle_notification env st d = st"

definition send :: "MCPResponse \<Rightarrow> handler_state \<Rightarrow> handler_state" where
  "send response st = st\<lparr>sent := sent st @ [response]\<rparr>"

text \<open>
  \<open>MCPHandler._process_message\<close>. The first component is the exception that leaves
  the function, if any.
\<close>

definition process_message ::
  "handler_env \<Rightarrow> handler_state \<Rightarrow> string \<Rightarrow> exn option \<times> handler_state" where
  "process_message env st msg =
     (case json_loads env msg of
        Inl (JSONDecodeError m) \<Rightarrow>
          (case create_error_response None (- 32700) (''Parse error: '' @ m) of
             Inl ex \<Rightarrow> (Some ex, st)
           | Inr response \<Rightarrow> (None, send response st))
      | Inl other \<Rightarrow> (Some other, st)
      | Inr d \<Rightarrow>
          (case json_contains d ''id'' of
             Inl ex \<Rightarrow> (Some ex, st)
           | Inr False \<Rightarrow> (None, handle_notification env st d)
           | Inr True \<Rightarrow>
               (case (case parse_request d of
                        Inl e \<Rightarrow> (Inl e, st)
                      | Inr request \<Rightarrow> handle_request env st request) of
                  (Inr response, st1) \<Rightarrow> (None, send response st1)
                | (Inl e, st1) \<Rightarrow>
                    (case json_get d ''id'' of
                       Inl ex \<Rightarrow> (Some ex, st1)
                     | Inr i \<Rightarrow>
                         (case create_error_response i (- 32603) (''Internal error: '' @ exn_str e) of
                            Inl ex \<Rightarrow> (Some ex, st1)
                          | Inr response \<Rightarrow> (None, send response st1))))))"

text \<open>
  \<open>MCPHandler.handle_connection\<close> on the messages the peer sends before it closes.
  An exception that leaves the inner \<open>except\<close> clause ends the \<open>async for\<close> loop: the
  handler returns, which closes the connection, with the listed messages unread.
\<close>

datatype connection_end = PeerClosed | HandlerExited exn "string list"

fun connection_loop ::
  "handler_env \<Rightarrow> handler_state \<Rightarrow> string list \<Rightarrow> connection_end \<times> handler_state" where
  "connection_loop env st [] = (PeerClosed, st)"
| "connection_loop env st (msg # msgs) =
     (case process_message env st msg of
        (None, st1) \<Rightarrow> connection_loop env st1 msgs
      | (Some e, st1) \<Rightarrow>
          (case create_error_response None (- 32603) (''Internal error: '' @ exn_str e) of
             Inl ex \<Rightarrow> (HandlerExited ex msgs, st1)
           | Inr response \<Rightarrow> connection_loop env (send response st1) msgs))"

definition handle_connection ::
  "handler_env \<Rightarrow> handler_state \<Rightarrow> string list \<Rightarrow> connection_end \<times> handler_state" where
  "handle_connection env st msgs =
     (case connection_loop env st msgs of (e, st1) \<Rightarrow> (e, st1\<lparr>initialized := False\<rparr>))"

section \<open>The parameter sweep as the specification words it\<close>




section \<open>Sample configurations and inputs\<close>

text \<open>Concrete values at which the theorems below are evaluated.\<close>

definition default_settings :: Settings where
  "default_settings =
     \<lparr>security = \<lparr>data_sanitization = True, max_prompt_length = 8192, max_response_length = 4096\<rparr>,
      performance = \<lparr>max_concurrent_requests = 5\<rparr>\<rparr>"

definition short_settings :: Settings where
  "short_settings =
     \<lparr>security = \<lparr>data_sanitization = True, max_prompt_length = 3, max_response_length = 4096\<rparr>,
      performance = \<lparr>max_concurrent_requests = 5\<rparr>\<rparr>"

definition negative_settings :: Settings where
  "negative_settings =
     \<lparr>security = \<lparr>data_sanitization = True, max_prompt_length = - 1, max_response_length = 4096\<rparr>,
      performance = \<lparr>max_concurrent_requests = 5\<rparr>\<rparr>"


text \<open>A backend that answers every request by repeating the prompt.\<close>

definition echo_client :: client_generate where
  "echo_client k q =
     Inr \<lparr>result_text = prompt q, tokens_generated = 1, generation_time = 1,
          tokens_per_second = 1, finish_reason = ''stop''\<rparr>"



text \<open>
  A backend whose rate depends on the position of the call: the second and the third
  call are equally fast, and faster than the others.
\<close>

definition rated_client :: client_generate where
  "rated_client k q =
     Inr \<lparr>result_text = ''ok'', tokens_generated = 6, generation_time = 2,
          tokens_per_second = [1, 3, 3, 2] ! (k mod 4), finish_reason = ''stop''\<rparr>"

text \<open>
  A router with one tool, whose handler raises, and one resource. \<open>sample_str\<close> and
  \<open>sample_loads\<close> stand for \<open>str\<close> and \<open>json.loads\<close> on the values and messages
  that occur in the samples.
\<close>

definition failing_tool :: "json \<Rightarrow> exn + json" where
  "failing_tool arguments = Inl (ValueError ''Prompt exceeds maximum length of 8192'')"

definition status_resource :: "json \<Rightarrow> exn + json" where
  "status_resource u = Inr (JObj [(''contents'', JList [])])"

definition sample_str :: "json option \<Rightarrow> string" where
  "sample_str v = (case v of Some (JStr s) \<Rightarrow> s | other \<Rightarrow> ''None'')"

definition sample_loads :: "string \<Rightarrow> exn + json" where
  "sample_loads msg =
     (if msg = ''null'' then Inr JNull
      else Inl (JSONDecodeError ''Expecting value: line 1 column 1 (char 0)''))"

definition sample_env :: handler_env where
  "sample_env =
     \<lparr>tools = [(''generate_text'',
                 (failing_tool,
                  \<lparr>tool_name = ''generate_text'', tool_description = ''Generate text'',
                   inputSchema = JObj [(''type'', JStr ''object'')]\<rparr>))],
      resources = [(''koboldcpp://server/status'',
                     (status_resource,
                      \<lparr>uri = ''koboldcpp://server/status'', resource_name = ''Server Status'',
                       resource_description = None, mimeType = Some ''application/json''\<rparr>))],
      py_str = sample_str,
      json_loads = sample_loads\<rparr>"


definition ready_state :: handler_state where
  "ready_state = \<lparr>initialized = True, client_capabilities = JObj [], invoked = [], sent = []\<rparr>"



definition call_unknown_tool :: MCPRequest where
  "call_unknown_tool =
     \<lparr>jsonrpc = ''2.0'', request_id = IdInt 3, request_method = ''tools/call'',
      params = Some [(''name'', JStr ''no_such_tool''), (''arguments'', JObj [])]\<rparr>"

definition call_failing_tool :: MCPRequest where
  "call_failing_tool =
     \<lparr>jsonrpc = ''2.0'', request_id = IdInt 4, request_method = ''tools/call'',
      params = Some [(''name'', JStr ''generate_text''),
                     (''arguments'', JObj [(''prompt'', JStr ''Hello'')])]\<rparr>"

definition read_unknown_resource :: MCPRequest where
  "read_unknown_resource =
     \<lparr>jsonrpc = ''2.0'', request_id = IdInt 5, request_method = ''resources/read'',
      params = Some [(''uri'', JStr ''koboldcpp://nothing'')]\<rparr>"

definition read_without_uri :: MCPRequest where
  "read_without_uri =
     \<lparr>jsonrpc = ''2.0'', request_id = IdInt 6, request_method = ''resources/read'',
      params = Some [(''cursor'', JStr ''x'')]\<rparr>"

definition read_empty_uri :: MCPRequest where
  "read_empty_uri =
     \<lparr>jsonrpc = ''2.0'', request_id = IdInt 7, request_method = ''resources/read'',
      params = Some [(''uri'', JStr '''')]\<rparr>"

definition read_without_params :: MCPRequest where
  "read_without_params =
     \<lparr>jsonrpc = ''2.0'', request_id = IdInt 8, request_method = ''resources/read'', params = None\<rparr>"

section \<open>Sanitization\<close>

lemma sanitize_prompt_length:
  "0 \<le> max_prompt_length (security settings) \<Longrightarrow>
     int (length (sanitize_prompt settings p)) \<le> max_prompt_length (security settings)"
  by (auto simp: sanitize_prompt_def py_slice_to_def Let_def)

text \<open>
  Claim C7. The sanitized prompt should contain no delimiter token. Each \<open>replace\<close> is
  a single pass, so a token wrapped around another one survives: from
  \<open><</s>/s>\<close> the inner \<open></s>\<close> is removed and the outer characters close up to
  \<open></s>\<close>, which is returned.
\<close>

theorem sanitize_prompt_nested_delimiter:
  "sanitize_prompt default_settings ''<</s>/s>'' = ''</s>''
   \<and> contains (sanitize_prompt default_settings ''<</s>/s>'') ''</s>''"
  by (simp add: sanitize_prompt_def default_settings_def py_replace_def py_slice_to_def)

lemma sanitize_prompt_nested_endoftext:
  "sanitize_prompt default_settings ''<|endo<|endoftext|>ftext|>'' = ''<|endoftext|>''"
  by (simp add: sanitize_prompt_def default_settings_def py_replace_def py_slice_to_def)

lemma sanitize_prompt_joined_delimiter:
  "sanitize_prompt default_settings ''</<|endoftext|>s>'' = ''</s>''"
  by (simp add: sanitize_prompt_def default_settings_def py_replace_def py_slice_to_def)

section \<open>generate_text and the length check\<close>

text \<open>
  Claim C9, as stated, fails for a negative \<open>max_prompt_length\<close>: the slice
  \<open>sanitized[:-1]\<close> drops one character, and what is left of \<open>ab\<close> is still longer than
  \<open>-1\<close>, so the prompt is rejected although sanitization is enabled.
\<close>

theorem generate_text_rejects_after_sanitization:
  "data_sanitization (security negative_settings)
   \<and> generate_text negative_settings echo_client ''ab'' 100 (7 / 10) (9 / 10) 40 1 (11 / 10) 320 None
       = (Inl (ValueError ''Prompt exceeds maximum length of -1''), [])"
  by (simp add: generate_text_def negative_settings_def sanitize_prompt_def py_replace_def
        py_slice_to_def str_int_def digit_char_def)

text \<open>
  Claim C9, amended. With sanitization enabled and \<open>max_prompt_length\<close> not negative,
  \<open>generate_text\<close> never takes the "Prompt exceeds maximum length" branch: for every
  prompt it sends exactly one request to the backend client, carrying the sanitized
  prompt, whose length is within the limit, and returns what the client call gives.
\<close>

theorem generate_text_sanitized_never_rejected:
  assumes "data_sanitization (security settings)"
      and "0 \<le> max_prompt_length (security settings)"
  shows "generate_text settings client p mt temp tp tk typ rp rpr stop =
           (let params = generate_params settings (sanitize_prompt settings p) mt temp tp tk typ rp rpr stop
            in case client 0 params of
                 Inl e \<Rightarrow> (Inl e, [params])
               | Inr r \<Rightarrow> (Inr (generate_output r params), [params]))
         \<and> int (length (sanitize_prompt settings p)) \<le> max_prompt_length (security settings)"
  using assms sanitize_prompt_length[of settings p]
  by (simp add: generate_text_def Let_def)

theorem generate_text_sanitized_never_rejected_witness:
  "data_sanitization (security short_settings)
   \<and> 0 \<le> max_prompt_length (security short_settings)
   \<and> snd (generate_text short_settings echo_client ''abcdef'' 100 (7 / 10) (9 / 10) 40 1 (11 / 10) 320 None)
       = [generate_params short_settings ''abc'' 100 (7 / 10) (9 / 10) 40 1 (11 / 10) 320 None]"
proof -
  have h1: "data_sanitization (security short_settings)"
    by (simp add: short_settings_def)
  have h2: "0 \<le> max_prompt_length (security short_settings)"
    by (simp add: short_settings_def)
  have s: "sanitize_prompt short_settings ''abcdef'' = ''abc''"
    by (simp add: sanitize_prompt_def short_settings_def py_replace_def py_slice_to_def)
  show ?thesis
    using h1 h2
      generate_text_sanitized_never_rejected [OF h1 h2, of echo_client "''abcdef''" 100 "7 / 10"
        "9 / 10" 40 1 "11 / 10" 320 None]
    by (simp add: s Let_def echo_client_def)
qed

lemma generate_text_rejects_when_unsanitized:
  "\<not> data_sanitization (security settings) \<Longrightarrow>
   max_prompt_length (security settings) < int (length p) \<Longrightarrow>
     generate_text settings client p mt temp tp tk typ rp rpr stop
       = (Inl (ValueError (''Prompt exceeds maximum length of ''
                            @ str_int (max_prompt_length (security settings)))), [])"
  by (simp add: generate_text_def)

section \<open>Retry policy of the backend request\<close>




text \<open>
  A status that is neither 200 nor 502, 503 or 504 raises \<open>ClientError\<close> inside the
  \<open>try\<close> block, where the \<open>except\<close> clause catches it: while retries are left, such
  a response is retried as well.
\<close>

lemma other_status_is_retried:
  "status \<notin> {200, 502, 503, 504} \<Longrightarrow> int attempt < m \<Longrightarrow>
     request_attempt m attempt (Response status js body) = Continue"
  by (simp add: request_attempt_def)


lemma attempts_split: "0 \<le> m \<Longrightarrow> [0 ..< nat (m + 1)] = [0 ..< nat m] @ [nat m]"
  by (simp add: nat_add_distrib)




text \<open>
  With a retry limit that is not negative the loop never runs out: the statement after
  the loop, which would raise \<open>Failed after n attempts\<close>, is not reached, and an error
  that the request raises is one that an attempt raised.
\<close>

lemma request_attempt_continues:
  "request_attempt m attempt out = Continue \<Longrightarrow> int attempt < m"
  by (cases out) (auto simp: request_attempt_def split: if_splits sum.splits)

lemma request_loop_raises:
  "request_loop http m xs = (Inl e, slept) \<Longrightarrow> xs \<noteq> [] \<Longrightarrow> \<not> int (last xs) < m \<Longrightarrow>
     \<exists>i \<in> set xs. request_attempt m i (http i) = Raise e"
proof (induction xs arbitrary: slept)
  case Nil
  then show ?case by simp
next
  case (Cons a xs)
  show ?case
  proof (cases "request_attempt m a (http a)")
    case (Return r)
    with Cons.prems show ?thesis by simp
  next
    case (Raise e')
    with Cons.prems show ?thesis by simp
  next
    case Continue
    have "xs \<noteq> []"
    proof
      assume "xs = []"
      with Cons.prems(3) have "\<not> int a < m" by simp
      with Continue show False
        by (auto dest: request_attempt_continues)
    qed
    moreover from this Cons.prems(3) have "\<not> int (last xs) < m" by simp
    moreover from Continue Cons.prems(1) obtain sl where "request_loop http m xs = (Inl e, sl)"
      by (auto split: prod.splits)
    ultimately have "\<exists>i \<in> set xs. request_attempt m i (http i) = Raise e"
      using Cons.IH by blast
    then show ?thesis by auto
  qed
qed

lemma make_request_error_is_attempt_error:
  assumes "0 \<le> retry_limit config retries"
      and "make_request config retries http = (Inl e, slept)"
  shows "\<exists>i \<le> nat (retry_limit config retries).
           request_attempt (retry_limit config retries) i (http i) = Raise e"
proof -
  let ?m = "retry_limit config retries"
  have "request_loop http ?m ([0 ..< nat ?m] @ [nat ?m]) = (Inl e, slept)"
    using assms by (simp add: make_request_def attempts_split Let_def)
  then have "\<exists>i \<in> set ([0 ..< nat ?m] @ [nat ?m]). request_attempt ?m i (http i) = Raise e"
    using assms(1) by (intro request_loop_raises) auto
  then obtain i where i: "i \<in> set ([0 ..< nat ?m] @ [nat ?m])"
    and r: "request_attempt ?m i (http i) = Raise e"
    by blast
  from i have "i \<le> nat ?m" by auto
  with r show ?thesis by blast
qed

section \<open>Batch fan-out of the backend client\<close>

lemma collect_accumulates:
  "collect rs res ok bad =
     (res @ map (\<lambda>r. case r of Some g \<Rightarrow> g | None \<Rightarrow> failed_result) rs,
      ok + int (length (filter (\<lambda>r. r \<noteq> None) rs)),
      bad + int (length (filter (\<lambda>r. r = None) rs)))"
  by (induction rs res ok bad rule: collect.induct) auto





text \<open>
  In \<open>process_single\<close> the call \<open>GenerateTextParams(prompt=prompt, **model_dump())\<close>
  passes \<open>prompt\<close> twice, because the dump of the shared parameters has a \<open>prompt\<close>
  entry of its own. The \<open>TypeError\<close> is caught with every other exception, so each task
  fails before it reaches the backend, and every batch consists of placeholders.
\<close>

lemma process_single_fails: "process_single client req i p = (None, [])"
  by (simp add: process_single_def call_kwargs_def model_dump_def bind_exn_def)

lemma client_batch_generate_all_failed:
  assumes "0 < max_concurrent req"
  shows "client_batch_generate client elapsed req =
           (Some (Inr \<lparr>results = replicate (length (prompts req)) failed_result,
                       total_time = elapsed, successful = 0,
                       failed = int (length (prompts req))\<rparr>), [])"
proof -
  have tasks: "map (\<lambda>(i, p). process_single client req i p) (enumerate 0 (prompts req))
                 = replicate (length (prompts req)) (None, [])"
    by (simp add: process_single_fails map_replicate_const case_prod_unfold)
  show ?thesis
    using assms
    by (simp add: client_batch_generate_def tasks collect_accumulates Let_def map_replicate_const)
qed

section \<open>The batch limit of the capability layer\<close>

lemma client_batch_generate_other_error:
  "fst (client_batch_generate client elapsed req)
     \<noteq> Some (Inl (ValueError ''Too many prompts in batch (maximum 50)''))"
  by (auto simp: client_batch_generate_def Let_def split: prod.splits)

text \<open>
  Claim C10. A call of \<open>batch_generate\<close> with more than 50 prompts raises
  \<open>ValueError\<close> ("Too many prompts in batch") whatever the settings, the other arguments
  and the backend are, and no request reaches the backend client; a call with at most
  50 prompts does not raise this error.
\<close>

theorem batch_generate_limit:
  "(50 < length ps \<longrightarrow>
      batch_generate settings client elapsed ps mt temp mc
        = (Some (Inl (ValueError ''Too many prompts in batch (maximum 50)'')), []))
   \<and> (length ps \<le> 50 \<longrightarrow>
        fst (batch_generate settings client elapsed ps mt temp mc)
          \<noteq> Some (Inl (ValueError ''Too many prompts in batch (maximum 50)'')))"
proof (intro conjI impI)
  assume "50 < length ps"
  then show "batch_generate settings client elapsed ps mt temp mc
               = (Some (Inl (ValueError ''Too many prompts in batch (maximum 50)'')), [])"
    by (simp add: batch_generate_def)
next
  assume le: "length ps \<le> 50"
  let ?req = "\<lparr>prompts = (if data_sanitization (security settings)
                            then map (sanitize_prompt settings) ps else ps),
               parameters = \<lparr>prompt = '''', max_tokens = min mt (max_response_length (security settings)),
                              temperature = temp, top_p = 9 / 10, top_k = 40, typical_p = 1,
                              rep_pen = 11 / 10, rep_pen_range = 320, stop_sequence = None,
                              stream = False\<rparr>,
               max_concurrent = min mc (max_concurrent_requests (performance settings))\<rparr>"
  obtain r reqs where cb: "client_batch_generate client elapsed ?req = (r, reqs)"
    by (cases "client_batch_generate client elapsed ?req")
  have "r \<noteq> Some (Inl (ValueError ''Too many prompts in batch (maximum 50)''))"
    using client_batch_generate_other_error [of client elapsed ?req] cb by simp
  then show "fst (batch_generate settings client elapsed ps mt temp mc)
               \<noteq> Some (Inl (ValueError ''Too many prompts in batch (maximum 50)''))"
    using le cb by (auto simp: batch_generate_def Let_def split: option.splits sum.splits)
qed

theorem batch_generate_limit_witness:
  "50 < length (replicate 51 ''x'')
   \<and> batch_generate default_settings echo_client 0 (replicate 51 ''x'') 100 (7 / 10) 3
       = (Some (Inl (ValueError ''Too many prompts in batch (maximum 50)'')), [])
   \<and> length [''x''] \<le> 50
   \<and> fst (batch_generate default_settings echo_client 0 [''x''] 100 (7 / 10) 3)
       \<noteq> Some (Inl (ValueError ''Too many prompts in batch (maximum 50)''))"
  using batch_generate_limit [of "replicate 51 ''x''" default_settings echo_client 0 100 "7 / 10" 3]
    batch_generate_limit [of "[''x'']" default_settings echo_client 0 100 "7 / 10" 3]
  by simp

section \<open>The parameter sweep\<close>








text \<open>
  On the sample backend the second and the third combination tie at the highest rate;
  the recommendation is the second one, which comes first.
\<close>

lemma test_prompt_tie:
  "best_configuration
     (projr (fst (test_prompt rated_client ''Hello'' (Some [3 / 10, 7 / 10]) (Some [8 / 10, 9 / 10]) 50)))
     = \<lparr>best_temperature = 3 / 10, best_top_p = 9 / 10, best_performance = 3\<rparr>"
  by (simp add: test_prompt_def or_default_def rated_client_def sweep_params_def sweep_entry_def
        py_max_def Let_def)

text \<open>A call that fails ends the sweep: its exception is raised and nothing is recommended.\<close>

lemma top_p_loop_failure:
  "client (length reqs) (sweep_params p mt temp tp) = Inl e \<Longrightarrow>
     top_p_loop client p mt temp (tp # tps) res reqs = (Inl e, reqs @ [sweep_params p mt temp tp])"
  by (simp add: Let_def)

section \<open>Protocol router\<close>

lemma validate_id_json: "validate_id (id_json i) = Some i"
  by (cases i) simp_all

lemma create_error_response_valid:
  "create_error_response (Some (id_json i)) c msg =
     Inr \<lparr>response_jsonrpc = ''2.0'', response_id = i, result = None,
          error = Some \<lparr>code = c, message = msg, data = None\<rparr>\<rparr>"
  by (simp add: create_error_response_def validate_id_json)

text \<open>No error response can be built for a request id that is \<open>None\<close>.\<close>

lemma create_error_response_none:
  "create_error_response None c msg =
     Inl (ValidationError ''MCPResponse id: Input should be a valid string or integer'')"
  by (simp add: create_error_response_def)

subsection \<open>The initialization gate\<close>

text \<open>
  An \<open>initialize\<close> request with the supported version whose \<open>clientInfo\<close> is a dict (or
  absent) succeeds and marks the handler initialized.
\<close>

lemma initialize_succeeds:
  assumes "request_method request = ''initialize''"
      and "params request = Some kvs"
      and "map_of kvs ''protocolVersion'' = Some (JStr ''2024-11-05'')"
      and "map_of kvs ''clientInfo'' = None \<or> (\<exists>info. map_of kvs ''clientInfo'' = Some (JObj info))"
  shows "handle_request env st request =
           (Inr (result_response (request_id request) (ResultDict initialize_result)),
            st\<lparr>client_capabilities :=
                  (case map_of kvs ''capabilities'' of None \<Rightarrow> JObj [] | Some v \<Rightarrow> v),
               initialized := True\<rparr>)"
  using assms
  by (auto simp: handle_request_def dispatch_def handle_initialize_def Let_def bind_exn_def)



subsection \<open>tools/call\<close>

text \<open>
  The router passes the \<open>MCPRequest\<close> it built to \<open>_handle_call_tool\<close>, which reads
  \<open>request.params.name\<close>. On a dict this raises \<open>AttributeError\<close> outside the handler's
  own \<open>try\<close> block, so on an initialized session every \<open>tools/call\<close> request ends in
  the \<open>except\<close> clause of \<open>_handle_request\<close>: error -32603, no handler invoked.
\<close>

lemma tools_call_internal_error:
  assumes "initialized st" and "request_method request = ''tools/call''"
  shows "\<exists>msg. handle_request env st request =
           (Inr \<lparr>response_jsonrpc = ''2.0'', response_id = request_id request, result = None,
                 error = Some \<lparr>code = - 32603, message = msg, data = None\<rparr>\<rparr>, st)"
  using assms
  by (auto simp: handle_request_def dispatch_def handle_call_tool_def params_attr_def
        create_error_response_valid split: option.splits)

text \<open>
  What the rest of \<open>_handle_call_tool\<close> does with a name and arguments, if it is ever
  reached: an unknown name gives -32601, and an exception of the handler becomes a
  result with \<open>isError\<close> set.
\<close>

lemma call_tool_body_unknown:
  "map_of (tools env) name = None \<Longrightarrow>
     call_tool_body env st request (JStr name) arguments =
       (Inr \<lparr>response_jsonrpc = ''2.0'', response_id = request_id request, result = None,
             error = Some \<lparr>code = - 32601,
                           message = ''Tool not found: '' @ py_str env (Some (JStr name)),
                           data = None\<rparr>\<rparr>, st)"
  by (simp add: call_tool_body_def create_error_response_valid)

lemma call_tool_body_wraps_exception:
  "map_of (tools env) name = Some info \<Longrightarrow> fst info (JObj args) = Inl e \<Longrightarrow>
     call_tool_body env st request (JStr name) (JObj args) =
       (Inr (result_response (request_id request)
               (CallResult \<lparr>content = [text_item (''Tool execution failed: '' @ exn_str e)],
                            isError = True\<rparr>)),
        st\<lparr>invoked := invoked st @ [(JStr name, JObj args)]\<rparr>)"
  by (simp add: call_tool_body_def bind_exn_def)

text \<open>
  Claim C4. The handler of the registered tool \<open>generate_text\<close> raises, and the session
  is initialized; the claim asks for a response with a result whose \<open>isError\<close> is true.
  The router answers with the protocol-level error -32603 and no result, and the handler
  is not invoked.
\<close>

theorem tool_failure_surfaces_as_protocol_error:
  "initialized ready_state
   \<and> map_of (tools sample_env) ''generate_text''
       = Some (failing_tool, snd (snd (hd (tools sample_env))))
   \<and> failing_tool (JObj [(''prompt'', JStr ''Hello'')])
       = Inl (ValueError ''Prompt exceeds maximum length of 8192'')
   \<and> handle_request sample_env ready_state call_failing_tool =
       (Inr \<lparr>response_jsonrpc = ''2.0'', response_id = IdInt 4, result = None,
             error = Some \<lparr>code = - 32603,
                           message = ''Internal error: dict object has no attribute name'',
                           data = None\<rparr>\<rparr>,
        ready_state)"
  by (simp add: ready_state_def sample_env_def failing_tool_def call_failing_tool_def
        handle_request_def dispatch_def handle_call_tool_def params_attr_def
        create_error_response_def)

subsection \<open>resources/read\<close>

text \<open>
  Claim C3, as stated, fails at three requests on an initialized session: a \<open>tools/call\<close>
  for an unknown tool is answered with -32603, not -32601; a \<open>resources/read\<close> whose
  \<open>uri\<close> is the empty string, which is no key of the registry, is answered with -32602,
  not -32601; and a \<open>resources/read\<close> without \<open>params\<close>, which therefore has no \<open>uri\<close>
  field, is answered with -32603, not -32602.
\<close>

theorem unknown_names_other_codes:
  "initialized ready_state
   \<and> map_of (tools sample_env) ''no_such_tool'' = None
   \<and> map_option code (error (projr (fst (handle_request sample_env ready_state call_unknown_tool))))
       = Some (- 32603)
   \<and> map_of (resources sample_env) '''' = None
   \<and> map_option code (error (projr (fst (handle_request sample_env ready_state read_empty_uri))))
       = Some (- 32602)
   \<and> params read_without_params = None
   \<and> map_option code (error (projr (fst (handle_request sample_env ready_state read_without_params))))
       = Some (- 32603)"
  by (simp add: ready_state_def sample_env_def call_unknown_tool_def read_empty_uri_def
        read_without_params_def handle_request_def dispatch_def handle_call_tool_def
        handle_read_resource_def params_attr_def params_get_def create_error_response_def)

text \<open>
  Claim C3, amended. On an initialized session, for every \<open>resources/read\<close> request whose
  \<open>params\<close> is a mapping: if its \<open>uri\<close> is a non-empty string that is no key of the
  resource registry, the answer is error -32601; if it has no \<open>uri\<close> field, the answer
  is error -32602. In both cases the state is unchanged.
\<close>

theorem read_resource_errors:
  assumes "initialized st"
      and "request_method request = ''resources/read''"
      and "params request = Some kvs"
  shows "(map_of kvs ''uri'' = Some (JStr u) \<and> u \<noteq> [] \<and> map_of (resources env) u = None \<longrightarrow>
            handle_request env st request =
              (Inr \<lparr>response_jsonrpc = ''2.0'', response_id = request_id request, result = None,
                    error = Some \<lparr>code = - 32601,
                                  message = ''Resource not found: '' @ py_str env (Some (JStr u)),
                                  data = None\<rparr>\<rparr>, st))
       \<and> (map_of kvs ''uri'' = None \<longrightarrow>
            handle_request env st request =
              (Inr \<lparr>response_jsonrpc = ''2.0'', response_id = request_id request, result = None,
                    error = Some \<lparr>code = - 32602, message = ''Missing required parameter: uri'',
                                  data = None\<rparr>\<rparr>, st))"
  using assms
  by (simp add: handle_request_def dispatch_def handle_read_resource_def params_get_def
        create_error_response_valid)

theorem read_resource_errors_witness:
  "initialized ready_state
   \<and> request_method read_unknown_resource = ''resources/read''
   \<and> params read_unknown_resource = Some [(''uri'', JStr ''koboldcpp://nothing'')]
   \<and> map_of (resources sample_env) ''koboldcpp://nothing'' = None
   \<and> handle_request sample_env ready_state read_unknown_resource =
       (Inr \<lparr>response_jsonrpc = ''2.0'', response_id = IdInt 5, result = None,
             error = Some \<lparr>code = - 32601, message = ''Resource not found: koboldcpp://nothing'',
                           data = None\<rparr>\<rparr>, ready_state)
   \<and> request_method read_without_uri = ''resources/read''
   \<and> params read_without_uri = Some [(''cursor'', JStr ''x'')]
   \<and> handle_request sample_env ready_state read_without_uri =
       (Inr \<lparr>response_jsonrpc = ''2.0'', response_id = IdInt 6, result = None,
             error = Some \<lparr>code = - 32602, message = ''Missing required parameter: uri'',
                           data = None\<rparr>\<rparr>, ready_state)"
proof -
  have i: "initialized ready_state"
    by (simp add: ready_state_def)
  have m1: "request_method read_unknown_resource = ''resources/read''"
    and p1: "params read_unknown_resource = Some [(''uri'', JStr ''koboldcpp://nothing'')]"
    and id1: "request_id read_unknown_resource = IdInt 5"
    by (simp_all add: read_unknown_resource_def)
  have m2: "request_method read_without_uri = ''resources/read''"
    and p2: "params read_without_uri = Some [(''cursor'', JStr ''x'')]"
    and id2: "request_id read_without_uri = IdInt 6"
    by (simp_all add: read_without_uri_def)
  have unknown: "map_of (resources sample_env) ''koboldcpp://nothing'' = None"
    by (simp add: sample_env_def)
  have str: "py_str sample_env (Some (JStr ''koboldcpp://nothing'')) = ''koboldcpp://nothing''"
    by (simp add: sample_env_def sample_str_def)
  have r1: "handle_request sample_env ready_state read_unknown_resource =
       (Inr \<lparr>response_jsonrpc = ''2.0'', response_id = IdInt 5, result = None,
             error = Some \<lparr>code = - 32601, message = ''Resource not found: koboldcpp://nothing'',
                           data = None\<rparr>\<rparr>, ready_state)"
    using read_resource_errors [OF i m1 p1, of "''koboldcpp://nothing''" sample_env] unknown
    by (simp add: id1 str)
  have r2: "handle_request sample_env ready_state read_without_uri =
       (Inr \<lparr>response_jsonrpc = ''2.0'', response_id = IdInt 6, result = None,
             error = Some \<lparr>code = - 32602, message = ''Missing required parameter: uri'',
                           data = None\<rparr>\<rparr>, ready_state)"
    using read_resource_errors [OF i m2 p2, of "''u''" sample_env]
    by (simp add: id2)
  from i m1 p1 unknown r1 m2 p2 r2 show ?thesis
    by blast
qed

subsection \<open>Messages that are not JSON\<close>

lemma process_message_parse_failure:
  assumes "json_loads env msg = Inl (JSONDecodeError m)"
  shows "process_message env st msg =
           (Some (ValidationError ''MCPResponse id: Input should be a valid string or integer''), st)"
  using assms by (simp add: process_message_def create_error_response_none)

lemma handle_connection_parse_failure:
  assumes "json_loads env msg = Inl (JSONDecodeError m)"
  shows "handle_connection env st (msg # rest) =
           (HandlerExited
              (ValidationError ''MCPResponse id: Input should be a valid string or integer'') rest,
            st\<lparr>initialized := False\<rparr>)"
  using assms
  by (simp add: handle_connection_def process_message_parse_failure create_error_response_none)

text \<open>
  Claim C5. The message \<open>hello\<close> is not JSON; the claim asks for an error response -32700
  with a null id, and for the connection to go on. Building that response fails,
  because the \<open>id\<close> of \<open>MCPResponse\<close> cannot be \<open>None\<close>: the exception leaves
  \<open>_process_message\<close> with nothing sent, the fallback in \<open>handle_connection\<close> fails
  in the same way, and the handler returns with the next message unread.
\<close>

theorem parse_failure_closes_connection:
  "json_loads sample_env ''hello'' = Inl (JSONDecodeError ''Expecting value: line 1 column 1 (char 0)'')
   \<and> process_message sample_env ready_state ''hello'' =
       (Some (ValidationError ''MCPResponse id: Input should be a valid string or integer''),
        ready_state)
   \<and> sent ready_state = []
   \<and> handle_connection sample_env ready_state [''hello'', ''null''] =
       (HandlerExited
          (ValidationError ''MCPResponse id: Input should be a valid string or integer'') [''null''],
        ready_state\<lparr>initialized := False\<rparr>)"
  by (simp add: sample_env_def sample_loads_def ready_state_def process_message_def
        handle_connection_def create_error_response_def)

end
